theory Spec2Isabelle
  imports Main "HOL-Library.AList"
begin

section \<open>Python values and dictionaries\<close>

text \<open>
  The values that travel through \<^verbatim>\<open>plotly.py\<close>: JSON-shaped Python objects. A nested
  dictionary is an association list (its keys are strings, as in JSON and in keyword
  arguments); the option and credential dictionaries of the module are finite maps.
\<close>

datatype pyval =
    PNone
  | PBool bool
  | PInt int
  | PStr string
  | PList "pyval list"
  | PDict "(string \<times> pyval) list"

type_synonym pydict = "string \<rightharpoonup> pyval"

text \<open>
  Lists and dictionaries are the mutable values, and the ones that cannot be hashed.
\<close>

fun hashable :: "pyval \<Rightarrow> bool" where
  "hashable (PList xs) = False"
| "hashable (PDict kvs) = False"
| "hashable v = True"

section \<open>Option resolution\<close>

text \<open>
  \<^verbatim>\<open>_DEFAULT_PLOT_OPTIONS\<close> (lines 38-43).
\<close>

definition DEFAULT_PLOT_OPTIONS :: pydict where
  "DEFAULT_PLOT_OPTIONS =
     [''filename'' \<mapsto> PStr ''plot from API'',
      ''fileopt'' \<mapsto> PStr ''new'',
      ''world_readable'' \<mapsto> PBool True,
      ''auto_open'' \<mapsto> PBool True,
      ''validate'' \<mapsto> PBool True]"

text \<open>
  \<^verbatim>\<open>_plot_option_logic\<close> (lines 119-129), with the two module-level dictionaries it
  reads passed explicitly: \<open>D\<close> is \<^verbatim>\<open>_DEFAULT_PLOT_OPTIONS\<close>, \<open>G\<close> is
  \<^verbatim>\<open>_plot_options\<close>, \<open>C\<close> is the argument \<^verbatim>\<open>plot_options\<close>. \<^verbatim>\<open>dict.update\<close> is
  map override.
\<close>

definition plot_option_logic_from :: "pydict \<Rightarrow> pydict \<Rightarrow> pydict \<Rightarrow> pydict" where
  "plot_option_logic_from D G C =
     (let options = Map.empty;
          options = options ++ D;
          options = options ++ G;
          options = options ++ C
      in if C ''filename'' \<noteq> None \<and> G ''fileopt'' = None \<and> C ''fileopt'' = None
         then options(''fileopt'' \<mapsto> PStr ''overwrite'')
         else options)"

definition plot_option_logic :: "pydict \<Rightarrow> pydict \<Rightarrow> pydict" where
  "plot_option_logic G C = plot_option_logic_from DEFAULT_PLOT_OPTIONS G C"

section \<open>Errors, the module state and the outside world\<close>

text \<open>
  Every exception the module raises or lets through is a value. \<open>PlotlyError\<close> and
  \<open>PlotlyAccountError\<close> carry the argument the exception was built with.
\<close>

datatype error =
    PlotlyError pyval
  | PlotlyAccountError pyval
  | PlotlyLocalCredentialsError
  | InputError string
  | HTTPError nat
  | ConnectionError
  | AttributeError
  | TypeError
  | ValueError
  | KeyError string
  | UnboundLocalError string

datatype http_method = GET | POST | DELETE

record http_request =
  req_method :: http_method
  req_url :: string
  req_data :: pyval
  req_headers :: "(string \<times> pyval) list"

text \<open>
  A response of \<^verbatim>\<open>requests\<close>. Its header dictionary ignores the case of names: \<open>headers\<close>
  is looked up by the lower-case name.
\<close>

record http_response =
  status_code :: nat
  headers :: "string \<rightharpoonup> string"
  content :: string

text \<open>
  The address of an object that a dictionary refers to: an object the caller created, or
  the value that a load of the credentials file created for one of the file's keys (the
  load is identified by the address of the dictionary it returned).
\<close>

datatype addr = Obj nat | FileItem nat string

text \<open>
  The mutable state. A dictionary binds its keys to objects, not to values: \<open>store\<close> holds
  the dictionaries, each a map from keys to the addresses of objects, and \<open>objects\<close> holds
  what is at each address. Two dictionaries that bind a key to the same address share that
  object. The two module-level dictionaries \<^verbatim>\<open>_credentials\<close> and \<^verbatim>\<open>_plot_options\<close>
  (lines 45-47) are at the addresses \<open>credentials_ref\<close> and \<open>plot_options_ref\<close>;
  \<open>next_free\<close> and \<open>next_object\<close> are the next addresses an allocation takes. The
  remaining fields record the effects: the HTTP requests issued, the lines written to
  streaming connections, what \<^verbatim>\<open>warnings.warn\<close> and \<^verbatim>\<open>print\<close> were given, and the urls
  handed to the browser.
\<close>

record world =
  store :: "nat \<Rightarrow> (string \<rightharpoonup> addr)"
  objects :: "addr \<Rightarrow> pyval"
  next_free :: nat
  next_object :: nat
  requests :: "http_request list"
  streamed :: "string list"
  warnings :: "pyval list"
  printed :: "pyval list"
  opened :: "pyval list"

definition credentials_ref :: nat where
  "credentials_ref = 0"

definition plot_options_ref :: nat where
  "plot_options_ref = 1"

definition initial_world :: world where
  "initial_world =
     \<lparr>store = (\<lambda>_. Map.empty), objects = (\<lambda>_. PNone), next_free = 2, next_object = 0,
      requests = [], streamed = [], warnings = [], printed = [], opened = []\<rparr>"

text \<open>The items of the dictionary at an address, as a reader sees them.\<close>

definition contents :: "world \<Rightarrow> nat \<Rightarrow> pydict" where
  "contents w r = (\<lambda>k. map_option (objects w) (store w r k))"


text \<open>
  Modelled from the spec: the collaborators that are not part of \<^verbatim>\<open>plotly.py\<close>
  (\<^verbatim>\<open>plotly.tools\<close>, \<^verbatim>\<open>plotly.utils\<close>, \<^verbatim>\<open>plotly.version\<close>, \<^verbatim>\<open>chunked_requests\<close>, and the
  libraries \<^verbatim>\<open>requests\<close>, \<^verbatim>\<open>json\<close>, \<^verbatim>\<open>base64\<close>, \<^verbatim>\<open>urlparse\<close>) are parameters. A
  validator answers \<open>Some msg\<close> when it raises \<^verbatim>\<open>PlotlyError(msg)\<close>; \<open>str_of\<close> is
  \<^verbatim>\<open>str\<close>, as \<^verbatim>\<open>format\<close> applies it; \<open>http\<close> is the network
  and the server together (\<open>Inl\<close> when the transport raises); \<open>chunk_connect\<close>,
  \<open>chunk_write\<close> and \<open>chunk_close\<close> are the constructor and the two methods of
  \<^verbatim>\<open>chunked_requests.Stream\<close>, answering \<open>Some e\<close> when they raise.
\<close>

record env =
  validate :: "pyval \<Rightarrow> pyval \<Rightarrow> string option"
  validate_stream :: "pyval \<Rightarrow> pyval \<Rightarrow> string option"
  str_of :: "pyval \<Rightarrow> string"
  replace_newline :: "pyval \<Rightarrow> pyval"
  plotly_json_dumps :: "pyval \<Rightarrow> error + string"
  json_dumps :: "pyval \<Rightarrow> error + string"
  json_loads :: "string \<Rightarrow> error + pyval"
  b64encode :: "string \<Rightarrow> string"
  urlparse_path :: "string \<Rightarrow> string"
  credentials_file :: pydict
  plotly_domain :: string
  plotly_streaming_domain :: string
  version :: string
  http :: "http_request \<Rightarrow> error + http_response"
  chunk_connect :: "string \<Rightarrow> nat \<Rightarrow> (string \<times> string) list \<Rightarrow> error option"
  chunk_write :: "string \<Rightarrow> pyval list \<Rightarrow> error option"
  chunk_close :: "error option"

type_synonym 'a result = "(error + 'a) \<times> world"

subsection \<open>Credentials and plot options (lines 55-86)\<close>













text \<open>
  The module is loaded and the objects of file loads are those of loads that happened:
  the two module-level dictionaries exist, and no dictionary refers to an object of a load
  still to come.
\<close>

definition well_formed :: "world \<Rightarrow> bool" where
  "well_formed w =
     (2 \<le> next_free w
      \<and> (\<forall>r k r' k'. store w r k = Some (FileItem r' k') \<longrightarrow> r' < next_free w))"

text \<open>
  \<^verbatim>\<open>_get_session_username_and_key\<close> (lines 836-845) and \<^verbatim>\<open>_validation_key_logic\<close>
  (lines 885-901). Both read the credentials file first; neither changes a dictionary.
\<close>

definition get_session_username_and_key :: "env \<Rightarrow> world \<Rightarrow> error + (pyval \<times> pyval)" where
  "get_session_username_and_key E w =
     (let file_credentials = credentials_file E; creds = contents w credentials_ref in
      case (creds ''username'', creds ''api_key'') of
        (Some username, Some api_key) \<Rightarrow> Inr (username, api_key)
      | _ \<Rightarrow>
        (case (file_credentials ''username'', file_credentials ''api_key'') of
           (Some username, Some api_key) \<Rightarrow> Inr (username, api_key)
         | _ \<Rightarrow> Inl PlotlyLocalCredentialsError))"

definition validation_key_logic :: "env \<Rightarrow> world \<Rightarrow> error + (pyval \<times> pyval)" where
  "validation_key_logic E w =
     (let creds_on_file = credentials_file E; creds = contents w credentials_ref;
          username = (case creds ''username'' of Some u \<Rightarrow> u
                      | None \<Rightarrow> (case creds_on_file ''username'' of Some u \<Rightarrow> u | None \<Rightarrow> PNone));
          api_key = (case creds ''api_key'' of Some k \<Rightarrow> k
                     | None \<Rightarrow> (case creds_on_file ''api_key'' of Some k \<Rightarrow> k | None \<Rightarrow> PNone))
      in if username = PNone \<or> api_key = PNone then Inl PlotlyLocalCredentialsError
         else Inr (username, api_key))"

section \<open>Operations on Python values\<close>

text \<open>\<^verbatim>\<open>len\<close>: \<open>None\<close> where Python raises \<^verbatim>\<open>TypeError\<close>.\<close>

fun py_len :: "pyval \<Rightarrow> nat option" where
  "py_len (PStr s) = Some (length s)"
| "py_len (PList xs) = Some (length xs)"
| "py_len (PDict kvs) = Some (length (remdups (map fst kvs)))"
| "py_len _ = None"

text \<open>The truth value of an object.\<close>

fun py_truthy :: "pyval \<Rightarrow> bool" where
  "py_truthy PNone = False"
| "py_truthy (PBool b) = b"
| "py_truthy (PInt n) = (n \<noteq> 0)"
| "py_truthy (PStr s) = (s \<noteq> [])"
| "py_truthy (PList xs) = (xs \<noteq> [])"
| "py_truthy (PDict kvs) = (kvs \<noteq> [])"

text \<open>Iteration (\<^verbatim>\<open>for x in v\<close>): a dictionary yields its keys, a string its characters.\<close>

fun py_iter :: "pyval \<Rightarrow> error + pyval list" where
  "py_iter (PList xs) = Inr xs"
| "py_iter (PDict kvs) = Inr (map (\<lambda>k. PStr k) (remdups (map fst kvs)))"
| "py_iter (PStr s) = Inr (map (\<lambda>c. PStr [c]) s)"
| "py_iter _ = Inl TypeError"

text \<open>Subscription by a string key (\<^verbatim>\<open>v['k']\<close>).\<close>

fun getitem :: "pyval \<Rightarrow> string \<Rightarrow> error + pyval" where
  "getitem (PDict kvs) k = (case map_of kvs k of Some v \<Rightarrow> Inr v | None \<Rightarrow> Inl (KeyError k))"
| "getitem _ k = Inl TypeError"

text \<open>\<^verbatim>\<open>sub in s\<close> on strings.\<close>

fun is_substring :: "string \<Rightarrow> string \<Rightarrow> bool" where
  "is_substring sub [] = (sub = [])"
| "is_substring sub (c # cs) = (take (length sub) (c # cs) = sub \<or> is_substring sub cs)"

text \<open>Membership of a string (\<^verbatim>\<open>'k' in v\<close>).\<close>

fun py_in :: "string \<Rightarrow> pyval \<Rightarrow> error + bool" where
  "py_in k (PDict kvs) = Inr (k \<in> set (map fst kvs))"
| "py_in k (PList xs) = Inr (PStr k \<in> set xs)"
| "py_in k (PStr s) = Inr (is_substring k s)"
| "py_in k _ = Inl TypeError"

text \<open>
  A warning shown and a line printed, as records. \<open>warn\<close> is \<^verbatim>\<open>warnings.warn\<close> where the
  message is a string; \<open>warnings_warn\<close> below is the call for any object.
\<close>

definition warn :: "pyval \<Rightarrow> world \<Rightarrow> world" where
  "warn msg w = w\<lparr>warnings := warnings w @ [msg]\<rparr>"

definition print :: "pyval \<Rightarrow> world \<Rightarrow> world" where
  "print msg w = w\<lparr>printed := printed w @ [msg]\<rparr>"

text \<open>
  \<^verbatim>\<open>warnings.warn(msg)\<close> for any object: the warning registry is keyed by the message, so
  a message that cannot be hashed raises \<^verbatim>\<open>TypeError\<close> before anything is shown.
  \<^verbatim>\<open>print\<close> takes any object.
\<close>

definition warnings_warn :: "pyval \<Rightarrow> world \<Rightarrow> error option \<times> world" where
  "warnings_warn msg w = (if hashable msg then (None, warn msg w) else (Some TypeError, w))"

definition print_value :: "pyval \<Rightarrow> world \<Rightarrow> error option \<times> world" where
  "print_value msg w = (None, print msg w)"

text \<open>
  \<^verbatim>\<open>_open_url\<close> (lines 903-908): hands the url to the browser and swallows every
  exception.
\<close>

definition open_url :: "pyval \<Rightarrow> world \<Rightarrow> world" where
  "open_url url w = w\<lparr>opened := opened w @ [url]\<rparr>"

section \<open>Submitting a figure\<close>

text \<open>\<^verbatim>\<open>raise_for_status\<close> of \<^verbatim>\<open>requests\<close>: a 4xx or 5xx status raises.\<close>

definition raise_for_status :: "http_response \<Rightarrow> error option" where
  "raise_for_status r =
     (if 400 \<le> status_code r \<and> status_code r < 600 then Some (HTTPError (status_code r)) else None)"

text \<open>
  One of the three reports at the end of \<^verbatim>\<open>_send_to_plotly\<close> (lines 875-880):
  \<^verbatim>\<open>if 'k' in r and r['k'] != '': act(r['k'])\<close>.
\<close>

definition report_field ::
  "string \<Rightarrow> (pyval \<Rightarrow> world \<Rightarrow> error option \<times> world) \<Rightarrow> pyval \<Rightarrow> world \<Rightarrow> error option \<times> world" where
  "report_field k act r w =
     (case py_in k r of
        Inl e \<Rightarrow> (Some e, w)
      | Inr False \<Rightarrow> (None, w)
      | Inr True \<Rightarrow>
          (case getitem r k of
             Inl e \<Rightarrow> (Some e, w)
           | Inr v \<Rightarrow> if v \<noteq> PStr [] then act v w else (None, w)))"

definition report_response :: "pyval \<Rightarrow> world \<Rightarrow> pyval result" where
  "report_response r w =
     (case report_field ''error'' print_value r w of
        (Some e, w1) \<Rightarrow> (Inl e, w1)
      | (None, w1) \<Rightarrow>
          (case report_field ''warning'' warnings_warn r w1 of
             (Some e, w2) \<Rightarrow> (Inl e, w2)
           | (None, w2) \<Rightarrow>
               (case report_field ''message'' print_value r w2 of
                  (Some e, w3) \<Rightarrow> (Inl e, w3)
                | (None, w3) \<Rightarrow> (Inr r, w3))))"

text \<open>\<^verbatim>\<open>fig['k'] if 'k' in fig else dflt\<close> (lines 851 and 857).\<close>

definition get_or :: "pyval \<Rightarrow> string \<Rightarrow> pyval \<Rightarrow> error + pyval" where
  "get_or fig k dflt =
     (case py_in k fig of
        Inl e \<Rightarrow> Inl e
      | Inr True \<Rightarrow> getitem fig k
      | Inr False \<Rightarrow> Inr dflt)"

text \<open>The keyword dictionary of lines 854-858; a missing option raises \<^verbatim>\<open>KeyError\<close>.\<close>

definition send_kwargs :: "pydict \<Rightarrow> pyval \<Rightarrow> error + pyval" where
  "send_kwargs plot_options fig =
     (case plot_options ''filename'' of
        None \<Rightarrow> Inl (KeyError ''filename'')
      | Some filename \<Rightarrow>
     (case plot_options ''fileopt'' of
        None \<Rightarrow> Inl (KeyError ''fileopt'')
      | Some fileopt \<Rightarrow>
     (case plot_options ''world_readable'' of
        None \<Rightarrow> Inl (KeyError ''world_readable'')
      | Some world_readable \<Rightarrow>
     (case get_or fig ''layout'' (PDict []) of
        Inl e \<Rightarrow> Inl e
      | Inr layout \<Rightarrow>
          Inr (PDict [(''filename'', filename), (''fileopt'', fileopt),
                      (''world_readable'', world_readable), (''layout'', layout)])))))"

text \<open>The request of lines 862-872.\<close>

definition clientresp_request :: "env \<Rightarrow> string \<Rightarrow> pyval \<Rightarrow> pyval \<Rightarrow> string \<Rightarrow> http_request" where
  "clientresp_request E data username api_key kwargs =
     \<lparr>req_method = POST,
      req_url = plotly_domain E @ ''/clientresp'',
      req_data = PDict [(''platform'', PStr ''python''), (''version'', PStr (version E)),
                        (''args'', PStr data), (''un'', username), (''key'', api_key),
                        (''origin'', PStr ''plot''), (''kwargs'', PStr kwargs)],
      req_headers = []\<rparr>"

text \<open>
  The exchange of lines 872-874: \<^verbatim>\<open>requests.post\<close>, \<^verbatim>\<open>raise_for_status\<close>,
  \<^verbatim>\<open>json.loads\<close>. The request is on record whether or not the exchange succeeds.
\<close>

definition post_and_load :: "env \<Rightarrow> http_request \<Rightarrow> world \<Rightarrow> pyval result" where
  "post_and_load E req w =
     (let w1 = w\<lparr>requests := requests w @ [req]\<rparr> in
      case http E req of
        Inl e \<Rightarrow> (Inl e, w1)
      | Inr r \<Rightarrow>
          (case raise_for_status r of
             Some e \<Rightarrow> (Inl e, w1)
           | None \<Rightarrow>
               (case json_loads E (content r) of
                  Inl e \<Rightarrow> (Inl e, w1)
                | Inr v \<Rightarrow> (Inr v, w1))))"

text \<open>
  Lines 850-870 of \<^verbatim>\<open>_send_to_plotly\<close>: the request that will be posted, or the error
  raised while it is built.
\<close>

definition send_request :: "env \<Rightarrow> pyval \<Rightarrow> pydict \<Rightarrow> world \<Rightarrow> error + http_request" where
  "send_request E figure plot_options w =
     (let fig = replace_newline E figure in
      case get_or fig ''data'' (PList []) of
        Inl e \<Rightarrow> Inl e
      | Inr d \<Rightarrow>
     (case plotly_json_dumps E d of
        Inl e \<Rightarrow> Inl e
      | Inr data \<Rightarrow>
     (case get_session_username_and_key E w of
        Inl e \<Rightarrow> Inl e
      | Inr (username, api_key) \<Rightarrow>
     (case send_kwargs plot_options fig of
        Inl e \<Rightarrow> Inl e
      | Inr kw \<Rightarrow>
     (case plotly_json_dumps E kw of
        Inl e \<Rightarrow> Inl e
      | Inr kwargs \<Rightarrow> Inr (clientresp_request E data username api_key kwargs))))))"

text \<open>\<^verbatim>\<open>_send_to_plotly\<close> (lines 847-882).\<close>

definition send_to_plotly :: "env \<Rightarrow> pyval \<Rightarrow> pydict \<Rightarrow> world \<Rightarrow> pyval result" where
  "send_to_plotly E figure plot_options w =
     (case send_request E figure plot_options w of
        Inl e \<Rightarrow> (Inl e, w)
      | Inr req \<Rightarrow>
          (case post_and_load E req w of
             (Inl e, w1) \<Rightarrow> (Inl e, w1)
           | (Inr r, w1) \<Rightarrow> report_response r w1))"

text \<open>The warning of lines 173-185.\<close>

definition too_many_points :: string where
  "too_many_points =
     ''Woah there! Look at all those points! Due to browser limitations, Plotly has a hard time ''
     @ ''graphing more than 500k data points for line charts, or 40k points for other types of charts. ''
     @ ''Here are some suggestions:'' @ [CHR 0x0A]
     @ ''(1) Trying using the image API to return an image instead of a graph URL'' @ [CHR 0x0A]
     @ ''(2) Use matplotlib'' @ [CHR 0x0A]
     @ ''(3) See if you can create your visualization with fewer data points'' @ [CHR 0x0A, CHR 0x0A]
     @ ''If the visualization you're using aggregates points (e.g., box plot, histogram, etc.) ''
     @ ''you can disregard this warning.''"

text \<open>
  The loop of lines 169-188. A value without a length raises \<^verbatim>\<open>TypeError\<close>, which the
  loop swallows; an entry that is not a dictionary has no \<^verbatim>\<open>items\<close>.
\<close>

definition check_value :: "pyval \<Rightarrow> world \<Rightarrow> world" where
  "check_value val w =
     (case py_len val of
        Some n \<Rightarrow> if n > 40000 then warn (PStr too_many_points) w else w
      | None \<Rightarrow> w)"

fun check_entry :: "pyval \<Rightarrow> world \<Rightarrow> error option \<times> world" where
  "check_entry (PDict kvs) w = (None, fold (\<lambda>(key, val). check_value val) kvs w)"
| "check_entry _ w = (Some AttributeError, w)"

fun check_entries :: "pyval list \<Rightarrow> world \<Rightarrow> error option \<times> world" where
  "check_entries [] w = (None, w)"
| "check_entries (entry # entries) w =
     (case check_entry entry w of
        (Some e, w1) \<Rightarrow> (Some e, w1)
      | (None, w1) \<Rightarrow> check_entries entries w1)"

text \<open>Lines 148-155.\<close>

definition figure_of :: "pyval \<Rightarrow> error + pyval" where
  "figure_of figure_or_data =
     (case figure_or_data of
        PDict kvs \<Rightarrow> Inr (PDict kvs)
      | PList xs \<Rightarrow> Inr (PDict [(''data'', PList xs)])
      | _ \<Rightarrow> Inl (PlotlyError (PStr
          (''The `figure_or_data` positional argument must be either `dict`-like or `list`-like.''))))"

definition invalid_figure :: string where
  "invalid_figure =
     ''Invalid 'figure_or_data' argument. Plotly will not be able to properly parse the resulting ''
     @ ''JSON. If you want to send this 'figure_or_data' to Plotly anyway (not recommended), you can ''
     @ ''set 'validate=False' as a plot option.'' @ [CHR 0x0A] @ ''Here's why you're seeing this error:''
     @ [CHR 0x0A, CHR 0x0A]"

text \<open>
  Lines 148-188 of \<^verbatim>\<open>plot\<close>: the figure is chosen, validated when asked, and its data
  entries are inspected. The answer is the figure that will be sent.
\<close>

definition plot_prepare :: "env \<Rightarrow> pyval \<Rightarrow> bool \<Rightarrow> world \<Rightarrow> pyval result" where
  "plot_prepare E figure_or_data validate_flag w =
     (case figure_of figure_or_data of
        Inl e \<Rightarrow> (Inl e, w)
      | Inr figure \<Rightarrow>
     (case (if validate_flag then validate E figure (PStr ''Figure'') else None) of
        Some err \<Rightarrow> (Inl (PlotlyError (PStr (invalid_figure @ err))), w)
      | None \<Rightarrow>
     (case getitem figure ''data'' of
        Inl e \<Rightarrow> (Inl e, w)
      | Inr data \<Rightarrow>
     (case py_iter data of
        Inl e \<Rightarrow> (Inl e, w)
      | Inr entries \<Rightarrow>
     (case check_entries entries w of
        (Some e, w1) \<Rightarrow> (Inl e, w1)
      | (None, w1) \<Rightarrow> (Inr figure, w1))))))"

text \<open>Lines 191-197 of \<^verbatim>\<open>plot\<close>: the response decides between the url and the error.\<close>

definition plot_respond :: "pydict \<Rightarrow> pyval \<Rightarrow> world \<Rightarrow> pyval result" where
  "plot_respond plot_options res w =
     (case getitem res ''error'' of
        Inl e \<Rightarrow> (Inl e, w)
      | Inr err \<Rightarrow>
          if err = PStr [] then
            (case plot_options ''auto_open'' of
               None \<Rightarrow> (Inl (KeyError ''auto_open''), w)
             | Some auto_open \<Rightarrow>
                 (case getitem res ''url'' of
                    Inl e \<Rightarrow> (Inl e, w)
                  | Inr url \<Rightarrow> (Inr url, if py_truthy auto_open then open_url url w else w)))
          else (Inl (PlotlyAccountError err), w))"

text \<open>
  \<^verbatim>\<open>plot\<close> (lines 132-197). \<open>kwargs\<close> are the keywords of the call other than
  \<^verbatim>\<open>figure_or_data\<close> and \<^verbatim>\<open>validate\<close>, which are parameters. Line 190 passes the merged
  options as keywords, \<^verbatim>\<open>_send_to_plotly(figure, **plot_options)\<close>: an option named
  \<^verbatim>\<open>figure\<close> collides with the positional argument and the call raises \<^verbatim>\<open>TypeError\<close>
  before \<^verbatim>\<open>_send_to_plotly\<close> is entered.
\<close>

definition plot :: "env \<Rightarrow> pyval \<Rightarrow> bool \<Rightarrow> pydict \<Rightarrow> world \<Rightarrow> pyval result" where
  "plot E figure_or_data validate_flag kwargs w =
     (case plot_prepare E figure_or_data validate_flag w of
        (Inl e, w1) \<Rightarrow> (Inl e, w1)
      | (Inr figure, w1) \<Rightarrow>
          (let plot_options = plot_option_logic (contents w1 plot_options_ref) kwargs in
           if plot_options ''figure'' \<noteq> None then (Inl TypeError, w1)
           else
             (case send_to_plotly E figure plot_options w1 of
                (Inl e, w2) \<Rightarrow> (Inl e, w2)
              | (Inr res, w2) \<Rightarrow> plot_respond plot_options res w2)))"

section \<open>The streaming writer\<close>

text \<open>
  Modelled from the spec: the object \<^verbatim>\<open>chunked_requests.Stream\<close> that \<^verbatim>\<open>open\<close> stores
  in the attribute \<^verbatim>\<open>_stream\<close>: the connection's server, port and headers.
\<close>

record chunked =
  server :: string
  port :: nat
  chunk_headers :: "(string \<times> string) list"

text \<open>
  The class \<^verbatim>\<open>Stream\<close> (lines 362-514). \<open>stream_attr\<close> is the attribute \<^verbatim>\<open>_stream\<close>:
  \<open>None\<close> while the object has no such attribute.
\<close>

record stream =
  stream_id :: string
  connected :: bool
  stream_attr :: "chunked option"

definition Stream_init :: "string \<Rightarrow> stream" where
  "Stream_init sid = \<lparr>stream_id = sid, connected = False, stream_attr = None\<rparr>"

definition stream_open :: "env \<Rightarrow> stream \<Rightarrow> world \<Rightarrow> error option \<times> stream \<times> world" where
  "stream_open E self w =
     (let streaming_url = plotly_streaming_domain E;
          hs = [(''Host'', streaming_url), (''plotly-streamtoken'', stream_id self)] in
      case chunk_connect E streaming_url 80 hs of
        Some e \<Rightarrow> (Some e, self, w)
      | None \<Rightarrow>
          (None, self\<lparr>stream_attr := Some \<lparr>server = streaming_url, port = 80, chunk_headers = hs\<rparr>\<rparr>, w))"

definition stream_not_open_write :: string where
  "stream_not_open_write =
     ''Stream has not been opened yet, cannot write to a closed connection. ''
     @ ''Call `open()` on the stream to open the stream.''"

definition stream_not_open_close :: string where
  "stream_not_open_close = ''Stream has not been opened yet.''"

definition invalid_trace :: "string \<Rightarrow> string \<Rightarrow> string" where
  "invalid_trace ty err =
     ''Part of the data object with type, '' @ [CHR 0x27] @ ty @ [CHR 0x27]
     @ '', is invalid. This will default to 'scatter' ''
     @ ''if you do not supply a 'type'. If you do not want to validate your data objects when ''
     @ ''streaming, you can set 'validate=False' in the call to 'your_stream.write()'. Here's why ''
     @ ''the object is invalid:'' @ [CHR 0x0A, CHR 0x0A] @ err"

definition unstreamable_trace :: "string \<Rightarrow> string \<Rightarrow> string" where
  "unstreamable_trace ty err =
     ''Part of the data object with type, '' @ [CHR 0x27] @ ty @ [CHR 0x27]
     @ '', cannot yet be streamed into Plotly. If you ''
     @ ''do not want to validate your data objects when streaming, you can set 'validate=False' in ''
     @ ''the call to 'your_stream.write()'. Here's why the object cannot be streamed:''
     @ [CHR 0x0A, CHR 0x0A] @ err"

definition invalid_layout :: "string \<Rightarrow> string" where
  "invalid_layout err = ''Your layout kwarg was invalid. Here's why:'' @ [CHR 0x0A, CHR 0x0A] @ err"

text \<open>\<^verbatim>\<open>dict.update\<close> on an association list.\<close>

definition alist_update_all :: "(string \<times> pyval) list \<Rightarrow> (string \<times> pyval) list \<Rightarrow> (string \<times> pyval) list" where
  "alist_update_all other d = fold (\<lambda>(k, v). AList.update k v) other d"

text \<open>
  Lines 453-495 of \<^verbatim>\<open>write\<close>: the line to send, or the error raised while building it.
  The trace is dictionary-like, as the docstring requires.
\<close>

definition stream_payload :: "env \<Rightarrow> (string \<times> pyval) list \<Rightarrow> pyval option \<Rightarrow> bool \<Rightarrow> error + string" where
  "stream_payload E trace layout validate_flag =
     (let stream_object = alist_update_all trace [];
          stream_object = (if ''type'' \<notin> set (map fst stream_object)
                           then AList.update ''type'' (PStr ''scatter'') stream_object
                           else stream_object);
          ty = (case map_of stream_object ''type'' of Some t \<Rightarrow> t | None \<Rightarrow> PNone);
          checked =
            (if validate_flag then
               (case validate E (PDict stream_object) ty of
                  Some err \<Rightarrow> Some (PlotlyError (PStr (invalid_trace (str_of E ty) err)))
                | None \<Rightarrow>
               (case validate_stream E (PDict stream_object) ty of
                  Some err \<Rightarrow> Some (PlotlyError (PStr (unstreamable_trace (str_of E ty) err)))
                | None \<Rightarrow>
               (case layout of
                  None \<Rightarrow> None
                | Some l \<Rightarrow>
                    (case validate E l (PStr ''Layout'') of
                       Some err \<Rightarrow> Some (PlotlyError (PStr (invalid_layout err)))
                     | None \<Rightarrow> None))))
             else None)
      in case checked of
           Some e \<Rightarrow> Inl e
         | None \<Rightarrow>
             (let stream_object = AList.delete ''type'' stream_object;
                  stream_object = (case layout of
                                     None \<Rightarrow> stream_object
                                   | Some l \<Rightarrow> alist_update_all [(''layout'', l)] stream_object)
              in case plotly_json_dumps E (PDict stream_object) of
                   Inl e \<Rightarrow> Inl e
                 | Inr jdata \<Rightarrow> Inr (jdata @ [CHR 0x0A])))"

text \<open>
  A method call on \<^verbatim>\<open>self._stream\<close> inside \<^verbatim>\<open>try ... except AttributeError\<close>: the
  attribute may be missing, and the method may raise. An \<^verbatim>\<open>AttributeError\<close> from either
  becomes the given \<^verbatim>\<open>PlotlyError\<close>.
\<close>

definition on_stream :: "stream \<Rightarrow> error option \<Rightarrow> string \<Rightarrow> error option" where
  "on_stream self outcome msg =
     (case (case stream_attr self of None \<Rightarrow> Some AttributeError | Some c \<Rightarrow> outcome) of
        Some AttributeError \<Rightarrow> Some (PlotlyError (PStr msg))
      | Some e \<Rightarrow> Some e
      | None \<Rightarrow> None)"

text \<open>\<^verbatim>\<open>Stream.write\<close> (lines 415-502). A line is on record once it has been written.\<close>

definition stream_write ::
  "env \<Rightarrow> stream \<Rightarrow> (string \<times> pyval) list \<Rightarrow> pyval option \<Rightarrow> bool \<Rightarrow> pyval list \<Rightarrow> world
    \<Rightarrow> error option \<times> stream \<times> world" where
  "stream_write E self trace layout validate_flag reconnect_on w =
     (case stream_payload E trace layout validate_flag of
        Inl e \<Rightarrow> (Some e, self, w)
      | Inr jdata \<Rightarrow>
          (case on_stream self (chunk_write E jdata reconnect_on) stream_not_open_write of
             Some e \<Rightarrow> (Some e, self, w)
           | None \<Rightarrow> (None, self, w\<lparr>streamed := streamed w @ [jdata]\<rparr>)))"

text \<open>\<^verbatim>\<open>Stream.close\<close> (lines 504-514).\<close>

definition stream_close :: "env \<Rightarrow> stream \<Rightarrow> world \<Rightarrow> error option \<times> stream \<times> world" where
  "stream_close E self w = (on_stream self (chunk_close E) stream_not_open_close, self, w)"

text \<open>
  A caller's use of one handle: any sequence of calls, each of which may raise; the
  caller goes on after an exception.
\<close>

datatype stream_call =
    Open
  | Write "(string \<times> pyval) list" "pyval option" bool "pyval list"
  | Close

fun stream_apply :: "env \<Rightarrow> stream_call \<Rightarrow> stream \<Rightarrow> world \<Rightarrow> error option \<times> stream \<times> world" where
  "stream_apply E Open self w = stream_open E self w"
| "stream_apply E (Write trace layout validate_flag reconnect_on) self w =
     stream_write E self trace layout validate_flag reconnect_on w"
| "stream_apply E Close self w = stream_close E self w"

fun stream_calls :: "env \<Rightarrow> stream_call list \<Rightarrow> stream \<Rightarrow> world \<Rightarrow> stream \<times> world" where
  "stream_calls E [] self w = (self, w)"
| "stream_calls E (c # cs) self w =
     (case stream_apply E c self w of (r, self1, w1) \<Rightarrow> stream_calls E cs self1 w1)"

section \<open>Static images\<close>

definition image_formats :: "string list" where
  "image_formats = [''png'', ''svg'', ''jpeg'', ''pdf'']"

definition invalid_format :: string where
  "invalid_format =
     ''Invalid format. This version of your Plotly-Python package currently only supports ''
     @ ''png, svg, jpeg, and pdf. Learn more about image exporting, and the currently supported ''
     @ ''file types here: https://plot.ly/python/static-image-export/''"

text \<open>The headers of lines 543-546 (and 322-325).\<close>

definition api_headers :: "env \<Rightarrow> pyval \<Rightarrow> pyval \<Rightarrow> (string \<times> pyval) list" where
  "api_headers E username api_key =
     [(''plotly-username'', username), (''plotly-apikey'', api_key),
      (''plotly-version'', PStr (version E)), (''plotly-platform'', PStr ''python'')]"

text \<open>
  Lines 564-588 of \<^verbatim>\<open>image.get\<close>: what the response is turned into. A 200 response of
  an unknown content type falls off the end of the function, which returns \<^verbatim>\<open>None\<close>.
\<close>

definition image_response :: "env \<Rightarrow> http_response \<Rightarrow> error + pyval" where
  "image_response E res =
     (let hs = headers res in
      if status_code res = 200 then
        (case hs ''content-type'' of
           None \<Rightarrow> Inr PNone
         | Some ct \<Rightarrow>
             if ct \<in> set [''image/png'', ''image/jpeg'', ''application/pdf'', ''image/svg+xml'']
             then Inr (PStr (content res))
             else if is_substring ''json'' ct then
               (case json_loads E (content res) of
                  Inl e \<Rightarrow> Inl e
                | Inr return_data \<Rightarrow> getitem return_data ''image'')
             else Inr PNone)
      else
        (case (case hs ''content-type'' of
                 None \<Rightarrow> Inr (PDict [(''error'', PStr (content res))])
               | Some ct \<Rightarrow>
                   if is_substring ''json'' ct then json_loads E (content res)
                   else Inr (PDict [(''error'', PStr (content res))])) of
           Inl e \<Rightarrow> Inl (PlotlyError (PStr ''The response from plotly could not be translated.''))
         | Inr return_data \<Rightarrow>
             (case getitem return_data ''error'' of
                Inl e \<Rightarrow> Inl e
              | Inr msg \<Rightarrow> Inl (PlotlyError msg))))"

text \<open>
  \<^verbatim>\<open>image.get\<close> (lines 521-588). The local variable \<^verbatim>\<open>figure\<close> is bound by one of the two
  branches of lines 527-530 or not at all: \<open>None\<close> is the unbound variable, and reading it
  at line 549 raises \<^verbatim>\<open>UnboundLocalError\<close>, a \<^verbatim>\<open>NameError\<close>.
\<close>

definition image_get ::
  "env \<Rightarrow> pyval \<Rightarrow> string \<Rightarrow> pyval option \<Rightarrow> pyval option \<Rightarrow> world \<Rightarrow> pyval result" where
  "image_get E figure_or_data format width height w =
     (let figure = (case figure_or_data of
                      PDict kvs \<Rightarrow> Some (PDict kvs)
                    | PList xs \<Rightarrow> Some (PDict [(''data'', PList xs)])
                    | _ \<Rightarrow> None) in
      if format \<notin> set image_formats then (Inl (PlotlyError (PStr invalid_format)), w)
      else
     (case validation_key_logic E w of
        Inl e \<Rightarrow> (Inl e, w)
      | Inr (username, api_key) \<Rightarrow>
     (case figure of
        None \<Rightarrow> (Inl (UnboundLocalError ''figure''), w)
      | Some fig \<Rightarrow>
          (let payload = [(''figure'', fig), (''format'', PStr format)]
                 @ (case width of None \<Rightarrow> [] | Some x \<Rightarrow> [(''width'', x)])
                 @ (case height of None \<Rightarrow> [] | Some x \<Rightarrow> [(''height'', x)])
           in case plotly_json_dumps E (PDict payload) of
                Inl e \<Rightarrow> (Inl e, w)
              | Inr body \<Rightarrow>
                  (let req = \<lparr>req_method = POST, req_url = plotly_domain E @ ''/apigenimage/'',
                              req_data = PStr body, req_headers = api_headers E username api_key\<rparr>;
                       w1 = w\<lparr>requests := requests w @ [req]\<rparr>
                   in case http E req of
                        Inl e \<Rightarrow> (Inl e, w1)
                      | Inr res \<Rightarrow> (image_response E res, w1))))))"

section \<open>Grids\<close>

text \<open>
  Modelled from the spec: a grid is a tabular resource composed of named columns. The
  class \<^verbatim>\<open>Grid\<close> is used by \<^verbatim>\<open>grid_ops\<close> as a mutable sequence of columns (it is
  iterated, enumerated and extended) with an attribute \<^verbatim>\<open>id\<close>; a column has a name, its
  data and an id. The truth value of a sequence is that it is not empty.
\<close>

record column =
  col_name :: string
  col_data :: "pyval list"
  col_id :: string

record grid =
  columns :: "column list"
  grid_id_attr :: "string option"

definition grid_truthy :: "grid option \<Rightarrow> bool" where
  "grid_truthy grid = (case grid of None \<Rightarrow> False | Some g \<Rightarrow> columns g \<noteq> [])"

subsection \<open>Strings\<close>

text \<open>\<^verbatim>\<open>str\<close> of a natural number.\<close>

fun str_nat :: "nat \<Rightarrow> string" where
  "str_nat n = (if n < 10 then [char_of (48 + n)] else str_nat (n div 10) @ [char_of (48 + n mod 10)])"

declare str_nat.simps [simp del]

text \<open>\<^verbatim>\<open>s.split(sep)\<close> for a separator of one character.\<close>

fun split_on :: "char \<Rightarrow> string \<Rightarrow> string list" where
  "split_on sep [] = [[]]"
| "split_on sep (c # cs) =
     (if c = sep then [] # split_on sep cs
      else (case split_on sep cs of p # ps \<Rightarrow> (c # p) # ps | [] \<Rightarrow> [[c]]))"

text \<open>\<^verbatim>\<open>s.replace("/~", "")\<close>.\<close>

fun remove_slash_tilde :: "string \<Rightarrow> string" where
  "remove_slash_tilde (a # b # cs) =
     (if a = CHR ''/'' \<and> b = CHR ''~'' then remove_slash_tilde cs
      else a # remove_slash_tilde (b # cs))"
| "remove_slash_tilde cs = cs"

text \<open>\<^verbatim>\<open>str\<close> of a list of strings, as \<^verbatim>\<open>format\<close> prints it.\<close>

fun comma_separated :: "string list \<Rightarrow> string" where
  "comma_separated [] = []"
| "comma_separated [s] = [CHR 0x27] @ s @ [CHR 0x27]"
| "comma_separated (s # t # ts) = [CHR 0x27] @ s @ [CHR 0x27] @ '', '' @ comma_separated (t # ts)"

definition str_list :: "string list \<Rightarrow> string" where
  "str_list xs = ''['' @ comma_separated xs @ '']''"

text \<open>\<^verbatim>\<open>'\n'.join(xs)\<close>: every item must be a string.\<close>

fun join_lines :: "pyval list \<Rightarrow> error + string" where
  "join_lines [] = Inr []"
| "join_lines [PStr s] = Inr s"
| "join_lines (PStr s # x # xs) =
     (case join_lines (x # xs) of Inl e \<Rightarrow> Inl e | Inr r \<Rightarrow> Inr (s @ [CHR 0x0A] @ r))"
| "join_lines (v # xs) = Inl TypeError"

subsection \<open>The helpers of \<^verbatim>\<open>grid_ops\<close>\<close>

definition grid_id_required :: string where
  "grid_id_required =
     ''One of the following keyword arguments is required:'' @ [CHR 0x0A]
     @ ''    `grid`, `grid_id`, or `grid_url`'' @ [CHR 0x0A, CHR 0x0A]
     @ ''grid: a plotly.graph_objs.Grid object that has already'' @ [CHR 0x0A]
     @ ''    been uploaded to Plotly.'' @ [CHR 0x0A, CHR 0x0A]
     @ ''grid_url: the url where the grid can be accessed on'' @ [CHR 0x0A]
     @ ''    Plotly, e.g. 'https://plot.ly/~chris/3043'' @ [CHR 0x27, CHR 0x0A, CHR 0x0A]
     @ ''grid_id: a unique identifier assigned by Plotly to the'' @ [CHR 0x0A]
     @ ''    grid object, e.g. 'chris:3043'.''"

definition grid_id_ambiguous :: "string list \<Rightarrow> string" where
  "grid_id_ambiguous supplied =
     ''Only one of `grid`, `grid_id`, or `grid_url` is required. '' @ [CHR 0x0A]
     @ ''You supplied '' @ [CHR 0x27] @ str_list supplied @ [CHR 0x27] @ ''. '' @ [CHR 0x0A]"

text \<open>\<^verbatim>\<open>_parse_grid_id_args\<close> (lines 645-685).\<close>

definition parse_grid_id_args :: "env \<Rightarrow> grid option \<Rightarrow> string option \<Rightarrow> string option \<Rightarrow> error + string" where
  "parse_grid_id_args E grid grid_url grid_id =
     (let id_from_grid = (case grid of Some g \<Rightarrow> grid_id_attr g | None \<Rightarrow> None);
          args = [id_from_grid, grid_url, grid_id];
          arg_names = [''grid'', ''grid_url'', ''grid_id''];
          supplied_arg_names = map fst (filter (\<lambda>(arg_name, arg). arg \<noteq> None) (zip arg_names args))
      in if supplied_arg_names = [] then Inl (InputError grid_id_required)
         else if length supplied_arg_names > 1 then Inl (InputError (grid_id_ambiguous supplied_arg_names))
         else
           (let supplied_arg_name = last supplied_arg_names in
            if supplied_arg_name = ''grid_url'' then
              (case take 2 (split_on (CHR ''/'') (remove_slash_tilde (urlparse_path E (the grid_url)))) of
                 [file_owner, file_id] \<Rightarrow> Inr (file_owner @ '':'' @ file_id)
               | _ \<Rightarrow> Inl ValueError)
            else if supplied_arg_name = ''grid_id'' then Inr (the grid_id)
            else Inr (the id_from_grid)))"

text \<open>\<^verbatim>\<open>_api_url\<close> (lines 687-690) and \<^verbatim>\<open>_headers\<close> (lines 636-643).\<close>

definition api_url :: string where
  "api_url = ''https://api-local.plot.ly/v2/grids''"

definition grid_headers :: "env \<Rightarrow> world \<Rightarrow> error + (string \<times> pyval) list" where
  "grid_headers E w =
     (case get_session_username_and_key E w of
        Inl e \<Rightarrow> Inl e
      | Inr (un, api_key) \<Rightarrow>
          (let encoded_un_key_pair = b64encode E (str_of E un @ '':'' @ str_of E api_key) in
           Inr [(''authorization'', PStr (''Basic '' @ encoded_un_key_pair)),
                (''plotly_client_platform'', PStr (''python '' @ version E))]))"

text \<open>\<^verbatim>\<open>_response_handler\<close> (lines 701-721).\<close>

definition response_handler :: "env \<Rightarrow> http_response \<Rightarrow> world \<Rightarrow> pyval result" where
  "response_handler E response w =
     (case raise_for_status response of
        Some e \<Rightarrow> (Inl e, w)
      | None \<Rightarrow>
          (case headers response ''content-type'' of
             None \<Rightarrow> (Inr PNone, w)
           | Some ct \<Rightarrow>
               if is_substring ''json'' ct \<and> length (content response) > 0 then
                 (case json_loads E (content response) of
                    Inl e \<Rightarrow> (Inl e, w)
                  | Inr response_dict \<Rightarrow>
                 (case py_in ''warnings'' response_dict of
                    Inl e \<Rightarrow> (Inl e, w)
                  | Inr False \<Rightarrow> (Inr response_dict, w)
                  | Inr True \<Rightarrow>
                 (case getitem response_dict ''warnings'' of
                    Inl e \<Rightarrow> (Inl e, w)
                  | Inr ws \<Rightarrow>
                 (case py_len ws of
                    None \<Rightarrow> (Inl TypeError, w)
                  | Some n \<Rightarrow>
                      if n = 0 then (Inr response_dict, w)
                      else
                        (case py_iter ws of
                           Inl e \<Rightarrow> (Inl e, w)
                         | Inr xs \<Rightarrow>
                             (case join_lines xs of
                                Inl e \<Rightarrow> (Inl e, w)
                              | Inr msg \<Rightarrow> (Inr response_dict, warn (PStr msg) w)))))))
               else (Inr PNone, w)))"

subsection \<open>Appending rows\<close>

definition row_mismatch :: "nat \<Rightarrow> nat \<Rightarrow> nat \<Rightarrow> string" where
  "row_mismatch row_i len_row n_columns =
     ''The number of entries in each row needs to equal the number of columns in the grid. ''
     @ ''Row '' @ str_nat row_i @ '' has '' @ str_nat len_row @ '' ''
     @ (if len_row = 1 then ''entry'' else ''entries'') @ '' but your grid has ''
     @ str_nat n_columns @ '' '' @ (if n_columns = 1 then ''column'' else ''columns'') @ ''. ''"

text \<open>The loop of lines 796-806, from row \<open>row_i\<close> on.\<close>

fun check_rows :: "nat \<Rightarrow> nat \<Rightarrow> pyval list list \<Rightarrow> error option" where
  "check_rows n_columns row_i [] = None"
| "check_rows n_columns row_i (row # rows) =
     (if length row \<noteq> n_columns then Some (InputError (row_mismatch row_i (length row) n_columns))
      else check_rows n_columns (Suc row_i) rows)"

text \<open>\<^verbatim>\<open>zip(*rows)\<close>: the columns of the rows, as long as the shortest row.\<close>

definition zip_star :: "pyval list list \<Rightarrow> pyval list list" where
  "zip_star rows =
     (case rows of
        [] \<Rightarrow> []
      | r # rs \<Rightarrow> map (\<lambda>i. map (\<lambda>row. row ! i) rows) [0..<fold min (map length rs) (length r)])"

text \<open>The loop of lines 825-826 over \<^verbatim>\<open>zip(grid, column_extensions)\<close>.\<close>

fun extend_columns :: "column list \<Rightarrow> pyval list list \<Rightarrow> column list" where
  "extend_columns (c # cs) (e # es) = c\<lparr>col_data := col_data c @ e\<rparr> # extend_columns cs es"
| "extend_columns cs es = cs"

text \<open>Lines 816-826: the local mirror of the grid after the rows were appended.\<close>

definition mirror_rows :: "pyval list list \<Rightarrow> grid \<Rightarrow> grid" where
  "mirror_rows rows g =
     (let longest_column_length = fold max (map (\<lambda>col. length (col_data col)) (columns g)) 0;
          padded = map (\<lambda>column. column\<lparr>col_data := col_data column
                      @ replicate (longest_column_length - length (col_data column)) (PStr [])\<rparr>)
                     (columns g)
      in g\<lparr>columns := extend_columns padded (zip_star rows)\<rparr>)"

text \<open>
  \<^verbatim>\<open>grid_ops.append_rows\<close> (lines 790-826). The answer is the caller's grid object as the
  call leaves it.
\<close>

definition append_rows ::
  "env \<Rightarrow> pyval list list \<Rightarrow> grid option \<Rightarrow> string option \<Rightarrow> string option \<Rightarrow> world
     \<Rightarrow> (grid option) result" where
  "append_rows E rows grid grid_url grid_id w =
     (case parse_grid_id_args E grid grid_url grid_id of
        Inl e \<Rightarrow> (Inl e, w)
      | Inr gid \<Rightarrow>
     (case (if grid_truthy grid then check_rows (length (columns (the grid))) 0 rows else None) of
        Some e \<Rightarrow> (Inl e, w)
      | None \<Rightarrow>
     (case json_dumps E (PList (map PList rows)) of
        Inl e \<Rightarrow> (Inl e, w)
      | Inr body \<Rightarrow>
     (case grid_headers E w of
        Inl e \<Rightarrow> (Inl e, w)
      | Inr hs \<Rightarrow>
          (let req = \<lparr>req_method = POST, req_url = api_url @ ''/'' @ gid @ ''/row'',
                      req_data = PDict [(''rows'', PStr body)], req_headers = hs\<rparr>;
               w1 = w\<lparr>requests := requests w @ [req]\<rparr>
           in case http E req of
                Inl e \<Rightarrow> (Inl e, w1)
              | Inr res \<Rightarrow>
                  (case response_handler E res w1 of
                     (Inl e, w2) \<Rightarrow> (Inl e, w2)
                   | (Inr r, w2) \<Rightarrow>
                       (Inr (if grid_truthy grid then Some (mirror_rows rows (the grid)) else grid), w2)))))))"

section \<open>A concrete environment\<close>

text \<open>
  An environment to run the module in: validators that accept every object, a service
  that answers every request with status 200 and a JSON body that parses to \<open>r\<close>, a
  credentials file that names a user, and a streaming endpoint that accepts connections
  and writes. \<open>strict_env\<close> is the same with a validator that rejects every object;
  \<open>failing_env\<close> is the same with a service that answers every request with status 500
  and the same body.
\<close>

definition test_env :: "pyval \<Rightarrow> env" where
  "test_env r =
     \<lparr>validate = (\<lambda>obj ty. None),
      validate_stream = (\<lambda>obj ty. None),
      str_of = (\<lambda>v. case v of PStr s \<Rightarrow> s | _ \<Rightarrow> []),
      replace_newline = (\<lambda>fig. fig),
      plotly_json_dumps = (\<lambda>v. Inr ''{}''),
      json_dumps = (\<lambda>v. Inr ''[]''),
      json_loads = (\<lambda>s. Inr r),
      b64encode = (\<lambda>s. s),
      urlparse_path = (\<lambda>u. u),
      credentials_file = [''username'' \<mapsto> PStr ''chris'', ''api_key'' \<mapsto> PStr ''secret''],
      plotly_domain = ''https://plot.ly'',
      plotly_streaming_domain = ''stream.plot.ly'',
      version = ''1.0'',
      http = (\<lambda>req. Inr \<lparr>status_code = 200,
                            headers = [''content-type'' \<mapsto> ''application/json''],
                            content = ''{}''\<rparr>),
      chunk_connect = (\<lambda>srv prt hs. None),
      chunk_write = (\<lambda>jdata reconnect_on. None),
      chunk_close = None\<rparr>"


definition failing_env :: "pyval \<Rightarrow> env" where
  "failing_env r =
     (test_env r)\<lparr>http := (\<lambda>req. Inr \<lparr>status_code = 500,
                                          headers = [''content-type'' \<mapsto> ''application/json''],
                                          content = ''{}''\<rparr>)\<rparr>"



section \<open>Properties of option resolution\<close>

text \<open>
  C1. If \<^verbatim>\<open>filename\<close> is a key of the call overrides and \<^verbatim>\<open>fileopt\<close> is a key of neither
  the process-wide overrides nor the call overrides, the merged options map \<^verbatim>\<open>fileopt\<close>
  to \<^verbatim>\<open>overwrite\<close>, although the built-in defaults map it to \<^verbatim>\<open>new\<close>.
\<close>

theorem fileopt_overwrite:
  assumes "C ''filename'' \<noteq> None" and "G ''fileopt'' = None" and "C ''fileopt'' = None"
  shows "plot_option_logic G C ''fileopt'' = Some (PStr ''overwrite'')
         \<and> DEFAULT_PLOT_OPTIONS ''fileopt'' = Some (PStr ''new'')"
  using assms by (simp add: plot_option_logic_def plot_option_logic_from_def DEFAULT_PLOT_OPTIONS_def)

theorem fileopt_overwrite_witness:
  "plot_option_logic Map.empty [''filename'' \<mapsto> PStr ''a''] ''fileopt'' = Some (PStr ''overwrite'')
   \<and> DEFAULT_PLOT_OPTIONS ''fileopt'' = Some (PStr ''new'')"
  using fileopt_overwrite [of "[''filename'' \<mapsto> PStr ''a'']" Map.empty] by simp

text \<open>
  C2. Apart from the filename/fileopt special case, the merged options are the defaults
  overridden key-wise by the process-wide overrides, overridden key-wise by the call
  overrides: a key of \<open>C\<close> has \<open>C\<close>'s value, else a key of \<open>G\<close> has \<open>G\<close>'s value, else the
  key has \<open>D\<close>'s value (or none).
\<close>

theorem option_merge_precedence:
  assumes "k \<noteq> ''fileopt'' \<or> C ''filename'' = None \<or> G ''fileopt'' \<noteq> None \<or> C ''fileopt'' \<noteq> None"
  shows "plot_option_logic_from D G C k =
           (case C k of Some v \<Rightarrow> Some v
            | None \<Rightarrow> (case G k of Some v \<Rightarrow> Some v | None \<Rightarrow> D k))"
  using assms by (auto simp add: plot_option_logic_from_def Let_def map_add_def split: option.splits)

theorem option_merge_precedence_witness:
  "plot_option_logic_from DEFAULT_PLOT_OPTIONS [''world_readable'' \<mapsto> PBool False]
      [''filename'' \<mapsto> PStr ''a''] ''world_readable'' = Some (PBool False)"
  using option_merge_precedence [of "''world_readable''" "[''filename'' \<mapsto> PStr ''a'']"
      "[''world_readable'' \<mapsto> PBool False]" DEFAULT_PLOT_OPTIONS]
  by simp

section \<open>What callers can do to the module state through a returned dictionary\<close>

lemma initial_world_well_formed: "well_formed initial_world"
  by (simp add: well_formed_def initial_world_def)











section \<open>Properties of the streaming writer\<close>

lemma stream_apply_connected: "stream_apply E c self w = (r, self1, w1) \<Longrightarrow> connected self1 = connected self"
  by (cases c)
     (auto simp add: stream_open_def stream_write_def stream_close_def Let_def
           split: option.splits sum.splits)

lemma stream_calls_connected: "connected (fst (stream_calls E cs self w)) = connected self"
proof (induction cs arbitrary: self w)
  case Nil
  show ?case by simp
next
  case (Cons c cs)
  obtain r self1 w1 where s: "stream_apply E c self w = (r, self1, w1)"
    by (cases "stream_apply E c self w")
  with Cons stream_apply_connected [OF s] show ?case by simp
qed

text \<open>
  C9. The attribute \<^verbatim>\<open>connected\<close> of a stream handle is \<open>False\<close> at construction, and
  after any sequence of \<^verbatim>\<open>open\<close>, \<^verbatim>\<open>write\<close> and \<^verbatim>\<open>close\<close> calls it is still \<open>False\<close>.
\<close>

theorem connected_stays_false:
  "connected (Stream_init sid) = False
   \<and> connected (fst (stream_calls E cs (Stream_init sid) w)) = False"
  by (simp add: stream_calls_connected) (simp add: Stream_init_def)

theorem connected_stays_false_witness:
  "connected (fst (stream_calls (test_env PNone)
      [Open, Write [(''x'', PInt 1)] None True [PInt 200, PStr [], PInt 408], Close]
      (Stream_init ''token'') initial_world)) = False"
  using connected_stays_false [of "''token''" "test_env PNone"
      "[Open, Write [(''x'', PInt 1)] None True [PInt 200, PStr [], PInt 408], Close]" initial_world]
  by blast






section \<open>Properties of figure submission\<close>

lemma merged_option_present: "D k \<noteq> None \<Longrightarrow> plot_option_logic_from D G C k \<noteq> None"
  by (auto simp add: plot_option_logic_from_def Let_def map_add_def split: option.splits)

lemma check_value_frame:
  "store (check_value val w) = store w \<and> objects (check_value val w) = objects w
   \<and> requests (check_value val w) = requests w
   \<and> set (warnings w) \<subseteq> set (warnings (check_value val w))"
  by (auto simp add: check_value_def warn_def split: option.splits)

lemma check_fold_frame:
  "store (fold (\<lambda>(key, val). check_value val) kvs w) = store w
   \<and> objects (fold (\<lambda>(key, val). check_value val) kvs w) = objects w
   \<and> requests (fold (\<lambda>(key, val). check_value val) kvs w) = requests w
   \<and> set (warnings w) \<subseteq> set (warnings (fold (\<lambda>(key, val). check_value val) kvs w))"
proof (induction kvs arbitrary: w)
  case Nil
  show ?case by simp
next
  case (Cons kv kvs)
  obtain key val where kv: "kv = (key, val)" by (cases kv)
  from Cons [of "check_value val w"] check_value_frame [of val w] show ?case
    by (auto simp add: kv)
qed



lemma check_entries_frame:
  assumes "\<forall>entry \<in> set entries. \<exists>kvs. entry = PDict kvs"
  shows "\<exists>w1. check_entries entries w = (None, w1) \<and> store w1 = store w \<and> objects w1 = objects w
            \<and> requests w1 = requests w \<and> set (warnings w) \<subseteq> set (warnings w1)"
  using assms
proof (induction entries arbitrary: w)
  case Nil
  show ?case by simp
next
  case (Cons entry entries)
  then obtain kvs where e: "entry = PDict kvs" by auto
  let ?w = "fold (\<lambda>(key, val). check_value val) kvs w"
  from Cons.prems have "\<forall>entry \<in> set entries. \<exists>kvs. entry = PDict kvs" by simp
  from Cons.IH [OF this, of ?w] obtain w1 where
    "check_entries entries ?w = (None, w1)" "store w1 = store ?w" "objects w1 = objects ?w"
    "requests w1 = requests ?w" "set (warnings ?w) \<subseteq> set (warnings w1)" by blast
  with check_fold_frame [of kvs w] show ?case by (auto simp add: e)
qed


lemma contents_frame: "store w1 = store w \<Longrightarrow> objects w1 = objects w \<Longrightarrow> contents w1 = contents w"
  by (rule ext) (simp add: contents_def)

lemma get_or_dict:
  "get_or (PDict kvs) k d = Inr (case map_of kvs k of Some v \<Rightarrow> v | None \<Rightarrow> d)"
proof (cases "k \<in> set (map fst kvs)")
  case True
  then have "map_of kvs k \<noteq> None" by (simp add: map_of_eq_None_iff)
  with True show ?thesis by (auto simp add: get_or_def)
next
  case False
  then have "map_of kvs k = None" by (simp add: map_of_eq_None_iff)
  with False show ?thesis by (simp add: get_or_def)
qed

lemma send_request_built:
  assumes "opts ''filename'' = Some filename" and "opts ''fileopt'' = Some fileopt"
    and "opts ''world_readable'' = Some world_readable"
    and "replace_newline E figure = PDict fkvs"
    and "plotly_json_dumps E (case map_of fkvs ''data'' of Some d \<Rightarrow> d | None \<Rightarrow> PList []) = Inr args"
    and "get_session_username_and_key E w = Inr (un, api_key)"
    and "plotly_json_dumps E (PDict [(''filename'', filename), (''fileopt'', fileopt),
            (''world_readable'', world_readable),
            (''layout'', case map_of fkvs ''layout'' of Some l \<Rightarrow> l | None \<Rightarrow> PDict [])]) = Inr kwargs"
  shows "send_request E figure opts w =
           Inr \<lparr>req_method = POST, req_url = plotly_domain E @ ''/clientresp'',
                req_data = PDict [(''platform'', PStr ''python''), (''version'', PStr (version E)),
                                  (''args'', PStr args), (''un'', un), (''key'', api_key),
                                  (''origin'', PStr ''plot''), (''kwargs'', PStr kwargs)],
                req_headers = []\<rparr>"
  using assms
  by (simp add: send_request_def send_kwargs_def get_or_dict clientresp_request_def)

lemma session_key_frame:
  "store w1 = store w \<Longrightarrow> objects w1 = objects w
     \<Longrightarrow> get_session_username_and_key E w1 = get_session_username_and_key E w"
  by (simp add: get_session_username_and_key_def contents_def)

lemma send_request_frame:
  "store w1 = store w \<Longrightarrow> objects w1 = objects w
     \<Longrightarrow> send_request E figure opts w1 = send_request E figure opts w"
  using session_key_frame [of w1 w E] by (simp add: send_request_def Let_def cong: sum.case_cong)

lemma post_and_load_frame:
  "requests (snd (post_and_load E req w)) = requests w @ [req]
   \<and> warnings (snd (post_and_load E req w)) = warnings w"
  by (simp add: post_and_load_def Let_def split: sum.splits option.splits)

lemma post_and_load_ok:
  assumes "http E req = Inr resp" and "status_code resp < 400 \<or> 600 \<le> status_code resp"
    and "json_loads E (content resp) = Inr r"
  shows "post_and_load E req w = (Inr r, w\<lparr>requests := requests w @ [req]\<rparr>)"
  using assms by (auto simp add: post_and_load_def raise_for_status_def Let_def)

lemma report_field_frame:
  assumes "act = print_value \<or> act = warnings_warn"
  shows "requests (snd (report_field k act r w)) = requests w
         \<and> set (warnings w) \<subseteq> set (warnings (snd (report_field k act r w)))"
  using assms
  by (auto simp add: report_field_def print_value_def warnings_warn_def print_def warn_def
        split: sum.splits bool.splits)

lemma report_response_frame:
  "requests (snd (report_response r w)) = requests w
   \<and> set (warnings w) \<subseteq> set (warnings (snd (report_response r w)))"
proof -
  obtain e1 w1 where a: "report_field ''error'' print_value r w = (e1, w1)"
    by (cases "report_field ''error'' print_value r w")
  obtain e2 w2 where b: "report_field ''warning'' warnings_warn r w1 = (e2, w2)"
    by (cases "report_field ''warning'' warnings_warn r w1")
  obtain e3 w3 where c: "report_field ''message'' print_value r w2 = (e3, w3)"
    by (cases "report_field ''message'' print_value r w2")
  from report_field_frame [of print_value "''error''" r w] a
  have 1: "requests w1 = requests w" "set (warnings w) \<subseteq> set (warnings w1)" by simp_all
  from report_field_frame [of warnings_warn "''warning''" r w1] b
  have 2: "requests w2 = requests w1" "set (warnings w1) \<subseteq> set (warnings w2)" by simp_all
  from report_field_frame [of print_value "''message''" r w2] c
  have 3: "requests w3 = requests w2" "set (warnings w2) \<subseteq> set (warnings w3)" by simp_all
  from 1 2 3 show ?thesis
    by (cases e1; cases e2; cases e3) (auto simp add: report_response_def a b c)
qed

lemma report_print_ok: "fst (report_field k print_value (PDict kvs) w) = None"
proof (cases "k \<in> set (map fst kvs)")
  case True
  then have "map_of kvs k \<noteq> None" by (simp add: map_of_eq_None_iff)
  with True show ?thesis by (auto simp add: report_field_def print_value_def)
next
  case False
  then show ?thesis by (simp add: report_field_def)
qed

lemma report_warning_ok:
  assumes "\<forall>x. map_of kvs ''warning'' = Some x \<longrightarrow> hashable x"
  shows "fst (report_field ''warning'' warnings_warn (PDict kvs) w) = None"
proof (cases "''warning'' \<in> set (map fst kvs)")
  case True
  then obtain x where "map_of kvs ''warning'' = Some x"
    using map_of_eq_None_iff [of kvs "''warning''"] by auto
  with True assms show ?thesis by (auto simp add: report_field_def warnings_warn_def)
next
  case False
  then show ?thesis by (simp add: report_field_def)
qed

lemma report_object_ok:
  assumes "\<forall>x. map_of kvs ''warning'' = Some x \<longrightarrow> hashable x"
  shows "fst (report_response (PDict kvs) w) = Inr (PDict kvs)"
proof -
  obtain e1 w1 where a: "report_field ''error'' print_value (PDict kvs) w = (e1, w1)"
    by (cases "report_field ''error'' print_value (PDict kvs) w")
  obtain e2 w2 where b: "report_field ''warning'' warnings_warn (PDict kvs) w1 = (e2, w2)"
    by (cases "report_field ''warning'' warnings_warn (PDict kvs) w1")
  obtain e3 w3 where c: "report_field ''message'' print_value (PDict kvs) w2 = (e3, w3)"
    by (cases "report_field ''message'' print_value (PDict kvs) w2")
  from report_print_ok [of "''error''" kvs w] a have "e1 = None" by simp
  moreover from report_warning_ok [OF assms, of w1] b have "e2 = None" by simp
  moreover from report_print_ok [of "''message''" kvs w2] c have "e3 = None" by simp
  ultimately show ?thesis by (simp add: report_response_def a b c)
qed

lemma plot_respond_frame:
  "requests (snd (plot_respond opts res w)) = requests w
   \<and> warnings (snd (plot_respond opts res w)) = warnings w"
  by (simp add: plot_respond_def open_url_def split: sum.splits option.splits)

lemma plot_prepare_ok:
  assumes "figure_of figure_or_data = Inr figure"
    and "\<not> v \<or> validate E figure (PStr ''Figure'') = None"
    and "getitem figure ''data'' = Inr data" and "py_iter data = Inr entries"
    and "\<forall>entry \<in> set entries. \<exists>kvs. entry = PDict kvs"
  shows "\<exists>w1. plot_prepare E figure_or_data v w = (Inr figure, w1)
            \<and> check_entries entries w = (None, w1)
            \<and> store w1 = store w \<and> objects w1 = objects w
            \<and> requests w1 = requests w \<and> set (warnings w) \<subseteq> set (warnings w1)"
proof -
  from check_entries_frame [OF assms(5), of w] obtain w1 where
    w1: "check_entries entries w = (None, w1)" "store w1 = store w" "objects w1 = objects w"
      "requests w1 = requests w" "set (warnings w) \<subseteq> set (warnings w1)"
    by blast
  from assms(2) have val: "(if v then validate E figure (PStr ''Figure'') else None) = None" by auto
  have "plot_prepare E figure_or_data v w = (Inr figure, w1)"
    by (simp add: plot_prepare_def assms(1,3,4) val w1(1))
  with w1 show ?thesis by blast
qed

text \<open>
  What \<^verbatim>\<open>plot\<close> does once the figure is prepared (into the world \<open>w1\<close>) and the request is
  built: the request is posted, the response is reported, and the response decides.
\<close>

lemma plot_submits:
  assumes "plot_prepare E figure_or_data v w = (Inr figure, w1)"
    and "store w1 = store w" and "objects w1 = objects w"
    and "plot_option_logic (contents w plot_options_ref) C = opts" and "opts ''figure'' = None"
    and "send_request E figure opts w = Inr req"
  shows "plot E figure_or_data v C w =
           (case post_and_load E req w1 of
              (Inl e, w2) \<Rightarrow> (Inl e, w2)
            | (Inr r, w2) \<Rightarrow>
                (case report_response r w2 of
                   (Inl e, w3) \<Rightarrow> (Inl e, w3)
                 | (Inr res, w3) \<Rightarrow> plot_respond opts res w3))"
proof -
  from contents_frame [OF assms(2,3)] assms(4)
  have o: "plot_option_logic (contents w1 plot_options_ref) C = opts" by simp
  from send_request_frame [OF assms(2,3), of E figure opts] assms(6)
  have r: "send_request E figure opts w1 = Inr req" by simp
  show ?thesis
    by (simp add: plot_def assms(1) o assms(5) send_to_plotly_def r split: prod.splits sum.splits)
qed

lemma plot_requests:
  assumes "plot_prepare E figure_or_data v w = (Inr figure, w1)"
    and "store w1 = store w" and "objects w1 = objects w" and "requests w1 = requests w"
    and "plot_option_logic (contents w plot_options_ref) C = opts" and "opts ''figure'' = None"
    and "send_request E figure opts w = Inr req"
  shows "requests (snd (plot E figure_or_data v C w)) = requests w @ [req]
         \<and> set (warnings w1) \<subseteq> set (warnings (snd (plot E figure_or_data v C w)))"
proof -
  obtain r w2 where p: "post_and_load E req w1 = (r, w2)" by (cases "post_and_load E req w1")
  from post_and_load_frame [of E req w1] p assms(4)
  have w2: "requests w2 = requests w @ [req]" "warnings w2 = warnings w1" by simp_all
  show ?thesis
  proof (cases r)
    case (Inl e)
    with plot_submits [OF assms(1,2,3,5,6,7)] p w2 show ?thesis by simp
  next
    case (Inr x)
    obtain r3 w3 where q: "report_response x w2 = (r3, w3)" by (cases "report_response x w2")
    from report_response_frame [of x w2] q w2
    have w3: "requests w3 = requests w @ [req]" "set (warnings w1) \<subseteq> set (warnings w3)" by simp_all
    show ?thesis
    proof (cases r3)
      case (Inl e)
      with plot_submits [OF assms(1,2,3,5,6,7)] p Inr q w3 show ?thesis by simp
    next
      case (Inr res)
      with plot_submits [OF assms(1,2,3,5,6,7)] p \<open>r = Inr x\<close> q w3
        plot_respond_frame [of opts res w3]
      show ?thesis by simp
    qed
  qed
qed

lemma plot_result:
  assumes "plot_prepare E figure_or_data v w = (Inr figure, w1)"
    and "store w1 = store w" and "objects w1 = objects w"
    and "plot_option_logic (contents w plot_options_ref) C = opts" and "opts ''figure'' = None"
    and "send_request E figure opts w = Inr req"
    and "http E req = Inr resp" and "status_code resp < 400 \<or> 600 \<le> status_code resp"
    and "json_loads E (content resp) = Inr (PDict rkvs)"
    and "\<forall>x. map_of rkvs ''warning'' = Some x \<longrightarrow> hashable x"
  shows "fst (plot E figure_or_data v C w) =
           fst (plot_respond opts (PDict rkvs)
                  (snd (report_response (PDict rkvs) (w1\<lparr>requests := requests w1 @ [req]\<rparr>))))"
proof -
  let ?w2 = "w1\<lparr>requests := requests w1 @ [req]\<rparr>"
  from post_and_load_ok [OF assms(7,8,9), of w1]
  have p: "post_and_load E req w1 = (Inr (PDict rkvs), ?w2)" .
  obtain r3 w3 where q: "report_response (PDict rkvs) ?w2 = (r3, w3)"
    by (cases "report_response (PDict rkvs) ?w2")
  from report_object_ok [OF assms(10), of ?w2] q have "r3 = Inr (PDict rkvs)" by simp
  with plot_submits [OF assms(1,2,3,4,5,6)] p q show ?thesis by simp
qed


lemma auto_open_present: "\<exists>a. plot_option_logic G C ''auto_open'' = Some a"
  using merged_option_present [of DEFAULT_PLOT_OPTIONS "''auto_open''" G C]
  by (auto simp add: plot_option_logic_def DEFAULT_PLOT_OPTIONS_def)

text \<open>
  C4, as the code has it. Take a call of \<^verbatim>\<open>plot\<close> whose figure is accepted, with no option
  named \<^verbatim>\<open>figure\<close>, whose payload serialises and whose credentials resolve, so that the
  request \<open>req\<close> is built. When the server answers it with a status that is not 4xx or
  5xx and a JSON object whose \<^verbatim>\<open>error\<close> field is the empty string, which has a \<^verbatim>\<open>url\<close>
  field and whose \<^verbatim>\<open>warning\<close> field, if any, is hashable, \<^verbatim>\<open>plot\<close> posts that request,
  returns the value of the \<^verbatim>\<open>url\<close> field and does not raise.
\<close>

theorem plot_returns_url:
  assumes fig: "figure_of figure_or_data = Inr figure"
    and val: "\<not> v \<or> validate E figure (PStr ''Figure'') = None"
    and data: "getitem figure ''data'' = Inr data" and iter: "py_iter data = Inr entries"
    and dicts: "\<forall>entry \<in> set entries. \<exists>kvs. entry = PDict kvs"
    and opts: "plot_option_logic (contents w plot_options_ref) C = opts"
    and nofig: "opts ''figure'' = None"
    and fname: "opts ''filename'' = Some filename" and fopt: "opts ''fileopt'' = Some fileopt"
    and wread: "opts ''world_readable'' = Some world_readable"
    and newl: "replace_newline E figure = PDict fkvs"
    and args: "plotly_json_dumps E (case map_of fkvs ''data'' of Some d \<Rightarrow> d | None \<Rightarrow> PList [])
                 = Inr args"
    and creds: "get_session_username_and_key E w = Inr (un, api_key)"
    and kwargs: "plotly_json_dumps E (PDict [(''filename'', filename), (''fileopt'', fileopt),
                   (''world_readable'', world_readable),
                   (''layout'', case map_of fkvs ''layout'' of Some l \<Rightarrow> l | None \<Rightarrow> PDict [])])
                 = Inr kwargs"
    and req: "req = \<lparr>req_method = POST, req_url = plotly_domain E @ ''/clientresp'',
                req_data = PDict [(''platform'', PStr ''python''), (''version'', PStr (version E)),
                                  (''args'', PStr args), (''un'', un), (''key'', api_key),
                                  (''origin'', PStr ''plot''), (''kwargs'', PStr kwargs)],
                req_headers = []\<rparr>"
    and http: "http E req = Inr resp"
    and status: "status_code resp < 400 \<or> 600 \<le> status_code resp"
    and loads: "json_loads E (content resp) = Inr (PDict rkvs)"
    and err: "map_of rkvs ''error'' = Some (PStr [])"
    and url: "map_of rkvs ''url'' = Some url"
    and hash: "\<forall>x. map_of rkvs ''warning'' = Some x \<longrightarrow> hashable x"
  shows "fst (plot E figure_or_data v C w) = Inr url
         \<and> requests (snd (plot E figure_or_data v C w)) = requests w @ [req]"
proof -
  from plot_prepare_ok [OF fig val data iter dicts, of w] obtain w1 where
    w1: "plot_prepare E figure_or_data v w = (Inr figure, w1)" "store w1 = store w"
      "objects w1 = objects w" "requests w1 = requests w"
    by blast
  from send_request_built [OF fname fopt wread newl args creds kwargs] req
  have sr: "send_request E figure opts w = Inr req" by simp
  from auto_open_present [of "contents w plot_options_ref" C] opts
  obtain a where a: "opts ''auto_open'' = Some a" by auto
  have "fst (plot_respond opts (PDict rkvs) w3) = Inr url" for w3
    by (simp add: plot_respond_def err url a)
  with plot_result [OF w1(1,2,3) opts nofig sr http status loads hash]
    plot_requests [OF w1 opts nofig sr]
  show ?thesis by simp
qed

text \<open>
  C5, as the code has it. Under the same conditions on the call, when the server answers
  with a status that is not 4xx or 5xx and a JSON object whose \<^verbatim>\<open>error\<close> field is not the
  empty string (and whose \<^verbatim>\<open>warning\<close> field, if any, is hashable), \<^verbatim>\<open>plot\<close> posts the
  request and raises \<^verbatim>\<open>PlotlyAccountError\<close> built from the value of the \<^verbatim>\<open>error\<close> field.
\<close>

theorem plot_raises_account_error:
  assumes fig: "figure_of figure_or_data = Inr figure"
    and val: "\<not> v \<or> validate E figure (PStr ''Figure'') = None"
    and data: "getitem figure ''data'' = Inr data" and iter: "py_iter data = Inr entries"
    and dicts: "\<forall>entry \<in> set entries. \<exists>kvs. entry = PDict kvs"
    and opts: "plot_option_logic (contents w plot_options_ref) C = opts"
    and nofig: "opts ''figure'' = None"
    and fname: "opts ''filename'' = Some filename" and fopt: "opts ''fileopt'' = Some fileopt"
    and wread: "opts ''world_readable'' = Some world_readable"
    and newl: "replace_newline E figure = PDict fkvs"
    and args: "plotly_json_dumps E (case map_of fkvs ''data'' of Some d \<Rightarrow> d | None \<Rightarrow> PList [])
                 = Inr args"
    and creds: "get_session_username_and_key E w = Inr (un, api_key)"
    and kwargs: "plotly_json_dumps E (PDict [(''filename'', filename), (''fileopt'', fileopt),
                   (''world_readable'', world_readable),
                   (''layout'', case map_of fkvs ''layout'' of Some l \<Rightarrow> l | None \<Rightarrow> PDict [])])
                 = Inr kwargs"
    and req: "req = \<lparr>req_method = POST, req_url = plotly_domain E @ ''/clientresp'',
                req_data = PDict [(''platform'', PStr ''python''), (''version'', PStr (version E)),
                                  (''args'', PStr args), (''un'', un), (''key'', api_key),
                                  (''origin'', PStr ''plot''), (''kwargs'', PStr kwargs)],
                req_headers = []\<rparr>"
    and http: "http E req = Inr resp"
    and status: "status_code resp < 400 \<or> 600 \<le> status_code resp"
    and loads: "json_loads E (content resp) = Inr (PDict rkvs)"
    and err: "map_of rkvs ''error'' = Some error_field" and nonempty: "error_field \<noteq> PStr []"
    and hash: "\<forall>x. map_of rkvs ''warning'' = Some x \<longrightarrow> hashable x"
  shows "fst (plot E figure_or_data v C w) = Inl (PlotlyAccountError error_field)
         \<and> requests (snd (plot E figure_or_data v C w)) = requests w @ [req]"
proof -
  from plot_prepare_ok [OF fig val data iter dicts, of w] obtain w1 where
    w1: "plot_prepare E figure_or_data v w = (Inr figure, w1)" "store w1 = store w"
      "objects w1 = objects w" "requests w1 = requests w"
    by blast
  from send_request_built [OF fname fopt wread newl args creds kwargs] req
  have sr: "send_request E figure opts w = Inr req" by simp
  have "fst (plot_respond opts (PDict rkvs) w3) = Inl (PlotlyAccountError error_field)" for w3
    by (simp add: plot_respond_def err nonempty)
  with plot_result [OF w1(1,2,3) opts nofig sr http status loads hash]
    plot_requests [OF w1 opts nofig sr]
  show ?thesis by simp
qed



theorem plot_returns_url_witness:
  "fst (plot (test_env (PDict [(''error'', PStr []), (''url'', PStr ''https://plot.ly/~chris/1'')])) (PList []) True Map.empty initial_world)
     = Inr (PStr ''https://plot.ly/~chris/1'')
   \<and> requests (snd (plot (test_env (PDict [(''error'', PStr []), (''url'', PStr ''https://plot.ly/~chris/1'')])) (PList []) True Map.empty initial_world))
     = [\<lparr>req_method = POST, req_url = plotly_domain (test_env (PDict [(''error'', PStr []), (''url'', PStr ''https://plot.ly/~chris/1'')])) @ ''/clientresp'',
            req_data = PDict [(''platform'', PStr ''python''), (''version'', PStr (version (test_env (PDict [(''error'', PStr []), (''url'', PStr ''https://plot.ly/~chris/1'')])))),
                              (''args'', PStr ''{}''), (''un'', PStr ''chris''), (''key'', PStr ''secret''),
                              (''origin'', PStr ''plot''), (''kwargs'', PStr ''{}'')],
            req_headers = []\<rparr>]"
proof -
  let ?R = "PDict [(''error'', PStr []), (''url'', PStr ''https://plot.ly/~chris/1'')]"
  let ?E = "test_env ?R"
  let ?figure = "PDict [(''data'', PList [])]"
  let ?opts = "plot_option_logic (contents initial_world plot_options_ref) Map.empty"
  have fig: "figure_of (PList []) = Inr ?figure" by (simp add: figure_of_def)
  have val: "\<not> True \<or> validate ?E ?figure (PStr ''Figure'') = None" by (simp add: test_env_def)
  have data: "getitem ?figure ''data'' = Inr (PList [])" by simp
  have iter: "py_iter (PList []) = Inr ([])" by simp
  have dicts: "\<forall>entry \<in> set ([]). \<exists>kvs. entry = PDict kvs" by simp
  have nofig: "?opts ''figure'' = None"
    and fname: "?opts ''filename'' = Some (PStr ''plot from API'')"
    and fopt: "?opts ''fileopt'' = Some (PStr ''new'')"
    and wread: "?opts ''world_readable'' = Some (PBool True)"
    by (simp_all add: plot_option_logic_def plot_option_logic_from_def DEFAULT_PLOT_OPTIONS_def
          contents_def initial_world_def)
  have newl: "replace_newline ?E ?figure = PDict [(''data'', PList [])]" by (simp add: test_env_def)
  have args: "plotly_json_dumps ?E (case map_of [(''data'', PList [])] ''data'' of
                Some d \<Rightarrow> d | None \<Rightarrow> PList []) = Inr ''{}''"
    by (simp add: test_env_def)
  have creds: "get_session_username_and_key ?E initial_world = Inr (PStr ''chris'', PStr ''secret'')"
    by (simp add: get_session_username_and_key_def test_env_def initial_world_def contents_def)
  have kwargs: "plotly_json_dumps ?E (PDict [(''filename'', PStr ''plot from API''),
                   (''fileopt'', PStr ''new''), (''world_readable'', PBool True),
                   (''layout'', case map_of [(''data'', PList [])] ''layout'' of
                                  Some l \<Rightarrow> l | None \<Rightarrow> PDict [])]) = Inr ''{}''"
    by (simp add: test_env_def)
  let ?resp = "\<lparr>status_code = 200, headers = [''content-type'' \<mapsto> ''application/json''],
                content = ''{}''\<rparr>"
  have http: "http ?E req = Inr ?resp" for req by (simp add: test_env_def)
  have status: "status_code ?resp < 400 \<or> 600 \<le> status_code ?resp" by simp
  have loads: "json_loads ?E (content ?resp) = Inr ?R" by (simp add: test_env_def)
  have err: "map_of [(''error'', PStr []), (''url'', PStr ''https://plot.ly/~chris/1'')] ''error'' = Some (PStr [])"
    and url: "map_of [(''error'', PStr []), (''url'', PStr ''https://plot.ly/~chris/1'')] ''url''
               = Some (PStr ''https://plot.ly/~chris/1'')"
    and hash: "\<forall>x. map_of [(''error'', PStr []), (''url'', PStr ''https://plot.ly/~chris/1'')] ''warning''
               = Some x \<longrightarrow> hashable x"
    by simp_all
  have empty: "requests initial_world = []" by (simp add: initial_world_def)
  from plot_returns_url [OF fig val data iter dicts refl nofig fname fopt wread newl args creds kwargs refl
      http status loads err url hash] empty
  show ?thesis by simp
qed

theorem plot_raises_account_error_witness:
  "fst (plot (test_env (PDict [(''error'', PStr ''No such user'')])) (PList []) True Map.empty initial_world)
     = Inl (PlotlyAccountError (PStr ''No such user''))
   \<and> requests (snd (plot (test_env (PDict [(''error'', PStr ''No such user'')])) (PList []) True Map.empty initial_world))
     = [\<lparr>req_method = POST, req_url = plotly_domain (test_env (PDict [(''error'', PStr ''No such user'')])) @ ''/clientresp'',
            req_data = PDict [(''platform'', PStr ''python''), (''version'', PStr (version (test_env (PDict [(''error'', PStr ''No such user'')])))),
                              (''args'', PStr ''{}''), (''un'', PStr ''chris''), (''key'', PStr ''secret''),
                              (''origin'', PStr ''plot''), (''kwargs'', PStr ''{}'')],
            req_headers = []\<rparr>]"
proof -
  let ?R = "PDict [(''error'', PStr ''No such user'')]"
  let ?E = "test_env ?R"
  let ?figure = "PDict [(''data'', PList [])]"
  let ?opts = "plot_option_logic (contents initial_world plot_options_ref) Map.empty"
  have fig: "figure_of (PList []) = Inr ?figure" by (simp add: figure_of_def)
  have val: "\<not> True \<or> validate ?E ?figure (PStr ''Figure'') = None" by (simp add: test_env_def)
  have data: "getitem ?figure ''data'' = Inr (PList [])" by simp
  have iter: "py_iter (PList []) = Inr ([])" by simp
  have dicts: "\<forall>entry \<in> set ([]). \<exists>kvs. entry = PDict kvs" by simp
  have nofig: "?opts ''figure'' = None"
    and fname: "?opts ''filename'' = Some (PStr ''plot from API'')"
    and fopt: "?opts ''fileopt'' = Some (PStr ''new'')"
    and wread: "?opts ''world_readable'' = Some (PBool True)"
    by (simp_all add: plot_option_logic_def plot_option_logic_from_def DEFAULT_PLOT_OPTIONS_def
          contents_def initial_world_def)
  have newl: "replace_newline ?E ?figure = PDict [(''data'', PList [])]" by (simp add: test_env_def)
  have args: "plotly_json_dumps ?E (case map_of [(''data'', PList [])] ''data'' of
                Some d \<Rightarrow> d | None \<Rightarrow> PList []) = Inr ''{}''"
    by (simp add: test_env_def)
  have creds: "get_session_username_and_key ?E initial_world = Inr (PStr ''chris'', PStr ''secret'')"
    by (simp add: get_session_username_and_key_def test_env_def initial_world_def contents_def)
  have kwargs: "plotly_json_dumps ?E (PDict [(''filename'', PStr ''plot from API''),
                   (''fileopt'', PStr ''new''), (''world_readable'', PBool True),
                   (''layout'', case map_of [(''data'', PList [])] ''layout'' of
                                  Some l \<Rightarrow> l | None \<Rightarrow> PDict [])]) = Inr ''{}''"
    by (simp add: test_env_def)
  let ?resp = "\<lparr>status_code = 200, headers = [''content-type'' \<mapsto> ''application/json''],
                content = ''{}''\<rparr>"
  have http: "http ?E req = Inr ?resp" for req by (simp add: test_env_def)
  have status: "status_code ?resp < 400 \<or> 600 \<le> status_code ?resp" by simp
  have loads: "json_loads ?E (content ?resp) = Inr ?R" by (simp add: test_env_def)
  have err: "map_of [(''error'', PStr ''No such user'')] ''error'' = Some (PStr ''No such user'')"
    and nonempty: "PStr ''No such user'' \<noteq> PStr []"
    and hash: "\<forall>x. map_of [(''error'', PStr ''No such user'')] ''warning'' = Some x \<longrightarrow> hashable x"
    by simp_all
  have empty: "requests initial_world = []" by (simp add: initial_world_def)
  from plot_raises_account_error [OF fig val data iter dicts refl nofig fname fopt wread newl args creds kwargs refl
      http status loads err nonempty hash] empty
  show ?thesis by simp
qed

text \<open>
  C4 as stated fails: when the server answers with status 500, \<^verbatim>\<open>raise_for_status\<close>
  (line 873) raises before the body is read, although the body is a JSON object whose
  \<^verbatim>\<open>error\<close> field is the empty string and which has a \<^verbatim>\<open>url\<close> field.
\<close>

theorem plot_server_error_counterexample:
  "json_loads (failing_env (PDict [(''error'', PStr []), (''url'', PStr ''https://plot.ly/~chris/1'')])) ''{}''
     = Inr (PDict [(''error'', PStr []), (''url'', PStr ''https://plot.ly/~chris/1'')])
   \<and> map req_url (requests (snd (plot
         (failing_env (PDict [(''error'', PStr []), (''url'', PStr ''https://plot.ly/~chris/1'')]))
         (PList []) True Map.empty initial_world))) = [''https://plot.ly/clientresp'']
   \<and> fst (plot (failing_env (PDict [(''error'', PStr []), (''url'', PStr ''https://plot.ly/~chris/1'')]))
         (PList []) True Map.empty initial_world) = Inl (HTTPError 500)"
  by (simp add: plot_def plot_prepare_def figure_of_def send_to_plotly_def send_request_def
        failing_env_def test_env_def get_or_def get_session_username_and_key_def contents_def
        initial_world_def send_kwargs_def plot_option_logic_def plot_option_logic_from_def
        DEFAULT_PLOT_OPTIONS_def post_and_load_def raise_for_status_def clientresp_request_def
        credentials_ref_def plot_options_ref_def)

text \<open>
  C5 as stated fails: when the server answers with status 500 and a JSON object whose
  \<^verbatim>\<open>error\<close> field is not empty, \<^verbatim>\<open>plot\<close> raises the HTTP error of \<^verbatim>\<open>raise_for_status\<close>
  (line 873), not \<^verbatim>\<open>PlotlyAccountError\<close>.
\<close>

theorem plot_error_body_server_error_counterexample:
  "json_loads (failing_env (PDict [(''error'', PStr ''No such user'')])) ''{}''
     = Inr (PDict [(''error'', PStr ''No such user'')])
   \<and> map req_url (requests (snd (plot (failing_env (PDict [(''error'', PStr ''No such user'')]))
         (PList []) True Map.empty initial_world))) = [''https://plot.ly/clientresp'']
   \<and> fst (plot (failing_env (PDict [(''error'', PStr ''No such user'')]))
         (PList []) True Map.empty initial_world) = Inl (HTTPError 500)"
  by (simp add: plot_def plot_prepare_def figure_of_def send_to_plotly_def send_request_def
        failing_env_def test_env_def get_or_def get_session_username_and_key_def contents_def
        initial_world_def send_kwargs_def plot_option_logic_def plot_option_logic_from_def
        DEFAULT_PLOT_OPTIONS_def post_and_load_def raise_for_status_def clientresp_request_def
        credentials_ref_def plot_options_ref_def)


section \<open>Properties of image generation\<close>

text \<open>
  C10. There are inputs to \<^verbatim>\<open>image.get\<close> on which it raises a name error instead of a
  typed \<^verbatim>\<open>PlotlyError\<close>: whenever \<^verbatim>\<open>figure_or_data\<close> is neither a dictionary nor a list,
  the format is valid and the credentials resolve, the local variable \<^verbatim>\<open>figure\<close> is
  read unbound, and nothing has been sent.
\<close>

theorem image_get_unbound_figure:
  assumes "\<forall>kvs. figure_or_data \<noteq> PDict kvs" and "\<forall>xs. figure_or_data \<noteq> PList xs"
    and "format \<in> set image_formats"
    and "validation_key_logic E w = Inr creds"
  shows "image_get E figure_or_data format width height w = (Inl (UnboundLocalError ''figure''), w)"
  using assms by (cases figure_or_data; cases creds) (simp_all add: image_get_def)

theorem image_get_unbound_figure_witness:
  "image_get (test_env PNone) (PInt 5) ''png'' None None initial_world
     = (Inl (UnboundLocalError ''figure''), initial_world)"
proof -
  have c: "validation_key_logic (test_env PNone) initial_world = Inr (PStr ''chris'', PStr ''secret'')"
    by (simp add: validation_key_logic_def test_env_def initial_world_def contents_def)
  have f: "''png'' \<in> set image_formats" by (simp add: image_formats_def)
  show ?thesis using image_get_unbound_figure [OF _ _ f c, of "PInt 5" None None] by simp
qed

section \<open>Properties of row appends\<close>

text \<open>
  With a local grid that has at least one column, a row of another length stops
  \<^verbatim>\<open>append_rows\<close> before any request: the call raises and the world is unchanged.
\<close>

lemma check_rows_mismatch:
  "\<exists>row \<in> set rows. length row \<noteq> n \<Longrightarrow> \<exists>msg. check_rows n i rows = Some (InputError msg)"
  by (induction rows arbitrary: i) auto

lemma append_rows_checks_nonempty_grid:
  assumes "columns g \<noteq> []" and "\<exists>row \<in> set rows. length row \<noteq> length (columns g)"
  shows "\<exists>e. append_rows E rows (Some g) grid_url grid_id w = (Inl e, w)"
proof (cases "parse_grid_id_args E (Some g) grid_url grid_id")
  case (Inl e)
  then show ?thesis by (simp add: append_rows_def)
next
  case (Inr gid)
  from check_rows_mismatch [OF assms(2), of 0] obtain msg where
    "check_rows (length (columns g)) 0 rows = Some (InputError msg)" by blast
  with Inr assms(1) show ?thesis by (simp add: append_rows_def grid_truthy_def)
qed

text \<open>
  C6. A row whose length differs from the grid's column count should make
  \<^verbatim>\<open>append_rows\<close> fail before any network call. The check is guarded by \<^verbatim>\<open>if grid:\<close>
  (line 794), and a grid without columns is false: with an uploaded grid of no columns and
  a row of one entry, the check is skipped and the request is posted.
\<close>

theorem append_rows_empty_grid_posts:
  "length [PInt 1] \<noteq> length (columns \<lparr>columns = [], grid_id_attr = Some ''chris:3043''\<rparr>)
   \<and> fst (append_rows (test_env (PDict [])) [[PInt 1]]
            (Some \<lparr>columns = [], grid_id_attr = Some ''chris:3043''\<rparr>) None None initial_world)
       = Inr (Some \<lparr>columns = [], grid_id_attr = Some ''chris:3043''\<rparr>)
   \<and> map req_url (requests (snd (append_rows (test_env (PDict [])) [[PInt 1]]
            (Some \<lparr>columns = [], grid_id_attr = Some ''chris:3043''\<rparr>) None None initial_world)))
       = [''https://api-local.plot.ly/v2/grids/chris:3043/row'']"
  by (simp add: append_rows_def parse_grid_id_args_def grid_truthy_def test_env_def
        grid_headers_def get_session_username_and_key_def contents_def initial_world_def api_url_def
        response_handler_def raise_for_status_def credentials_ref_def)

end
